theory Spec2Isabelle
  imports Main "HOL-Library.AList"
begin

section \<open>The task model of taskmanager.py\<close>

text \<open>
  The enum \<open>Priority\<close> with the strings its members carry (they are what the
  saved file holds).
\<close>

datatype Priority = LOW | MEDIUM | HIGH

fun Priority_value :: "Priority \<Rightarrow> string" where
  "Priority_value LOW = ''low''"
| "Priority_value MEDIUM = ''medium''"
| "Priority_value HIGH = ''high''"

definition Priority_of_value :: "string \<Rightarrow> Priority option" where
  "Priority_of_value s =
     (if s = ''low'' then Some LOW
      else if s = ''medium'' then Some MEDIUM
      else if s = ''high'' then Some HIGH
      else None)"

text \<open>
  A \<open>datetime\<close> is the number of microseconds since 0001-01-01T00:00:00, the instant
  Python's naive datetime denotes. Python only represents the years 1 to 9999:
  \<open>datetime.max\<close> is 9999-12-31T23:59:59.999999, day 3652059 of the calendar, and an
  addition that leaves the range raises OverflowError.
\<close>

type_synonym datetime = int

definition datetime_min :: datetime where
  "datetime_min = 0"

definition datetime_max :: datetime where
  "datetime_max = 3652059 * 86400000000 - 1"

text \<open>\<open>timedelta(days=n)\<close>, in microseconds.\<close>

definition timedelta_days :: "int \<Rightarrow> int" where
  "timedelta_days n = n * 86400000000"

text \<open>
  The rules whose violation pydantic collects. It reports every such violation of a
  construction in one ValidationError, in the order of the fields.
\<close>

datatype violation =
    TitleTooShort
  | TitleTooLong
  | PriorityUnknown
  | DeadlineNotFuture
  | IntervalBelowMin
  | IntervalAboveMax

text \<open>
  The exceptions of the program. Of these only ValidationError is a ValueError (what
  the \<open>except\<close> clauses of the program catch).
\<close>

datatype error =
    ValidationError "violation list"
  | AttributeError
  | OverflowError
  | TypeError
  | KeyError string

definition is_ValueError :: "error \<Rightarrow> bool" where
  "is_ValueError e = (case e of ValidationError vs \<Rightarrow> True | _ \<Rightarrow> False)"

definition datetime_add :: "datetime \<Rightarrow> int \<Rightarrow> error + datetime" where
  "datetime_add d delta =
     (if d + delta < datetime_min \<or> datetime_max < d + delta then Inl OverflowError
      else Inr (d + delta))"

record TaskModel =
  title :: string
  priority :: Priority
  deadline :: "datetime option"
  dependencies :: "string list"
  recurring :: bool
  recurrence_interval :: "int option"
  completed :: bool
  created_at :: datetime

subsection \<open>Validation\<close>

text \<open>\<open>title: str = Field(..., min_length=1, max_length=100)\<close>\<close>

definition title_field :: "string \<Rightarrow> violation list" where
  "title_field v =
     (if length v < 1 then [TitleTooShort]
      else if 100 < length v then [TitleTooLong]
      else [])"

text \<open>
  The validator of \<open>deadline\<close>: \<open>if v and v < datetime.now(): raise ValueError\<close>,
  else \<open>return v\<close>. A datetime is always truthy, so \<open>v and ...\<close> only tests for
  None. \<open>now\<close> is the reading of the clock.
\<close>

definition deadline_must_be_future :: "datetime \<Rightarrow> datetime option \<Rightarrow> violation + datetime option" where
  "deadline_must_be_future now v =
     (case v of
        None \<Rightarrow> Inr v
      | Some d \<Rightarrow> if d < now then Inl DeadlineNotFuture else Inr v)"

text \<open>
  The validator of \<open>recurrence_interval\<close>. The program imports
  \<open>field_validator\<close>, which only pydantic 2 has, and there the third parameter of a
  field validator, here named \<open>values\<close>, is a \<open>ValidationInfo\<close>: the fields
  validated so far are its attribute \<open>data\<close>, and it has no method \<open>get\<close>. The
  first thing the validator does is \<open>values.get('recurring', False)\<close>, so every call
  of it raises AttributeError before either \<open>raise ValueError\<close> is reached.
\<close>

record ValidationInfo =
  info_data :: "(string \<times> bool) list"

definition validate_recurrence_interval :: "int option \<Rightarrow> ValidationInfo \<Rightarrow> error + int option" where
  "validate_recurrence_interval v values = Inl AttributeError"

definition violations_of :: "violation + 'a \<Rightarrow> violation list" where
  "violations_of r = (case r of Inl e \<Rightarrow> [e] | Inr _ \<Rightarrow> [])"

text \<open>
  \<open>recurrence_interval: Optional[int] = Field(None, ge=1, le=365)\<close>. The argument
  is None when the keyword is not passed: the field takes its default and the
  validator does not run. When the keyword is passed, with None or with a number, the
  bounds are checked on a number and the validator runs on what passed them. An
  exception of the validator that is not a ValueError is not collected: it leaves the
  construction.
\<close>

definition recurrence_interval_field :: "int option option \<Rightarrow> ValidationInfo \<Rightarrow> error + violation list" where
  "recurrence_interval_field keyword values =
     (case keyword of
        None \<Rightarrow> Inr []
      | Some v \<Rightarrow>
          (case v of
             None \<Rightarrow>
               (case validate_recurrence_interval v values of
                  Inl e \<Rightarrow> Inl e
                | Inr _ \<Rightarrow> Inr [])
           | Some n \<Rightarrow>
               if n < 1 then Inr [IntervalBelowMin]
               else if 365 < n then Inr [IntervalAboveMax]
               else (case validate_recurrence_interval v values of
                       Inl e \<Rightarrow> Inl e
                     | Inr _ \<Rightarrow> Inr [])))"

text \<open>
  The validation of the fields of one construction: the exception that leaves it, or
  the violations collected, in field order (\<open>prio\<close> are those of the priority,
  which only a loaded document can have). The clock readings of one construction are
  one instant \<open>now\<close>. A deadline that is passed as None and one that is not passed
  give the same: the validator returns None.
\<close>

definition field_violations ::
  "datetime \<Rightarrow> string \<Rightarrow> violation list \<Rightarrow> datetime option \<Rightarrow> bool \<Rightarrow> int option option
     \<Rightarrow> error + violation list" where
  "field_violations now ttl prio dl rec keyword =
     (case recurrence_interval_field keyword \<lparr>info_data = [(''recurring'', rec)]\<rparr> of
        Inl e \<Rightarrow> Inl e
      | Inr ivs \<Rightarrow>
          Inr (title_field ttl @ prio @ violations_of (deadline_must_be_future now dl) @ ivs))"

text \<open>
  \<open>TaskModel(title=..., priority=..., deadline=..., dependencies=..., recurring=...,
  recurrence_interval=...)\<close>, the last keyword passed (\<open>Some v\<close>) or not
  (\<open>None\<close>); both constructions of the program pass it. \<open>completed\<close> and
  \<open>created_at\<close> take their defaults, False and \<open>datetime.now()\<close>. The validators
  return their argument, so the fields of the task are the arguments.
\<close>

definition TaskModel_init ::
  "datetime \<Rightarrow> string \<Rightarrow> Priority \<Rightarrow> datetime option \<Rightarrow> string list \<Rightarrow> bool
     \<Rightarrow> int option option \<Rightarrow> error + TaskModel" where
  "TaskModel_init now ttl prio dl deps rec keyword =
     (case field_violations now ttl [] dl rec keyword of
        Inl e \<Rightarrow> Inl e
      | Inr errs \<Rightarrow>
          if errs = [] then
            Inr \<lparr>title = ttl, priority = prio, deadline = dl, dependencies = deps,
                 recurring = rec,
                 recurrence_interval = (case keyword of None \<Rightarrow> None | Some v \<Rightarrow> v),
                 completed = False, created_at = now\<rparr>
          else Inl (ValidationError errs))"

section \<open>The store\<close>

subsection \<open>The saved document\<close>

text \<open>
  \<open>task.json()\<close> writes the eight fields of a task: the priority as its string, a
  datetime as its ISO-8601 text, None as null. \<open>datetime.isoformat\<close> and pydantic's
  parser of it are the library's: the model keeps, for an ISO-8601 text, the instant it
  denotes.
\<close>

datatype iso8601 = Iso datetime

fun fromisoformat :: "iso8601 \<Rightarrow> datetime" where
  "fromisoformat (Iso d) = d"

record task_json =
  json_title :: string
  json_priority :: string
  json_deadline :: "iso8601 option"
  json_dependencies :: "string list"
  json_recurring :: bool
  json_recurrence_interval :: "int option"
  json_completed :: bool
  json_created_at :: iso8601

definition to_json :: "TaskModel \<Rightarrow> task_json" where
  "to_json t =
     \<lparr>json_title = title t, json_priority = Priority_value (priority t),
      json_deadline = map_option Iso (deadline t), json_dependencies = dependencies t,
      json_recurring = recurring t, json_recurrence_interval = recurrence_interval t,
      json_completed = completed t, json_created_at = Iso (created_at t)\<rparr>"

text \<open>
  \<open>TaskModel.parse_obj(task_data)\<close> on a document of the shape \<open>task.json()\<close>
  writes: the validation of a construction, run at loading time, with every field
  taken from the document. The document has the key \<open>recurrence_interval\<close> (null
  for None), so the validator of the interval runs as for a keyword that is passed.
\<close>

definition parse_obj :: "datetime \<Rightarrow> task_json \<Rightarrow> error + TaskModel" where
  "parse_obj now j =
     (case field_violations now (json_title j)
             (case Priority_of_value (json_priority j) of
                None \<Rightarrow> [PriorityUnknown]
              | Some p \<Rightarrow> [])
             (map_option fromisoformat (json_deadline j)) (json_recurring j)
             (Some (json_recurrence_interval j)) of
        Inl e \<Rightarrow> Inl e
      | Inr errs \<Rightarrow>
          (case Priority_of_value (json_priority j) of
             None \<Rightarrow> Inl (ValidationError errs)
           | Some p \<Rightarrow>
               if errs = [] then
                 Inr \<lparr>title = json_title j, priority = p,
                      deadline = map_option fromisoformat (json_deadline j),
                      dependencies = json_dependencies j, recurring = json_recurring j,
                      recurrence_interval = json_recurrence_interval j,
                      completed = json_completed j,
                      created_at = fromisoformat (json_created_at j)\<rparr>
               else Inl (ValidationError errs)))"

subsection \<open>The manager\<close>

text \<open>
  \<open>self.tasks\<close> is a dict: an association list in insertion order. \<open>k in d\<close> is
  \<open>has_key d k\<close>, \<open>d[k]\<close> is \<open>map_of d k\<close> (None: KeyError), and \<open>d[k] = v\<close> is
  \<open>AList.update k v d\<close>, which replaces the value of a key in place and appends a new
  key. The state also holds the file \<open>self.filename\<close> names (\<open>disk\<close>, None when the
  file does not exist) and the number of times it was written (\<open>writes\<close>).
\<close>

type_synonym store = "(string \<times> TaskModel) list"

record TaskManager =
  tasks :: store
  disk :: "(string \<times> task_json) list option"
  writes :: nat

definition has_key :: "(string \<times> 'v) list \<Rightarrow> string \<Rightarrow> bool" where
  "has_key d k = (map_of d k \<noteq> None)"

definition dump :: "store \<Rightarrow> (string \<times> task_json) list" where
  "dump d = map (\<lambda>(k, t). (k, to_json t)) d"

definition save_tasks :: "TaskManager \<Rightarrow> TaskManager" where
  "save_tasks m = m\<lparr>disk := Some (dump (tasks m)), writes := Suc (writes m)\<rparr>"

text \<open>
  The dict comprehension of \<open>load_tasks\<close>: the entries are parsed in order, and the
  first one that fails raises.
\<close>

fun load_items :: "datetime \<Rightarrow> (string \<times> task_json) list \<Rightarrow> store \<Rightarrow> error + store" where
  "load_items now [] acc = Inr acc"
| "load_items now ((k, j) # rest) acc =
     (case parse_obj now j of
        Inl e \<Rightarrow> Inl e
      | Inr t \<Rightarrow> load_items now rest (AList.update k t acc))"

definition load_tasks :: "datetime \<Rightarrow> TaskManager \<Rightarrow> error + TaskManager" where
  "load_tasks now m =
     (case disk m of
        None \<Rightarrow> Inr m
      | Some data \<Rightarrow>
          (case load_items now data [] of
             Inl e \<Rightarrow> Inl e
           | Inr d \<Rightarrow> Inr (m\<lparr>tasks := d\<rparr>)))"

definition TaskManager_init :: "datetime \<Rightarrow> (string \<times> task_json) list option \<Rightarrow> error + TaskManager" where
  "TaskManager_init now file = load_tasks now \<lparr>tasks = [], disk = file, writes = 0\<rparr>"

definition add_task :: "TaskModel \<Rightarrow> TaskManager \<Rightarrow> bool \<times> TaskManager" where
  "add_task task m =
     (if has_key (tasks m) (title task) then (False, m)
      else if list_ex (\<lambda>dep. \<not> has_key (tasks m) dep) (dependencies task) then (False, m)
      else (True, save_tasks (m\<lparr>tasks := AList.update (title task) task (tasks m)\<rparr>)))"

text \<open>
  \<open>if task.recurring and task.recurrence_interval\<close>: an interval is truthy when it
  is neither None nor 0.
\<close>

definition interval_truthy :: "int option \<Rightarrow> bool" where
  "interval_truthy iv = (case iv of None \<Rightarrow> False | Some n \<Rightarrow> n \<noteq> 0)"

text \<open>
  \<open>task.deadline + timedelta(days=task.recurrence_interval) if task.deadline else
  None\<close>. This line stands before the \<open>try\<close>, so an exception of it leaves
  \<open>complete_task\<close>: OverflowError when the sum is past \<open>datetime.max\<close> (also
  what \<open>timedelta\<close> raises for a number of days it cannot hold), TypeError for
  \<open>timedelta(days=None)\<close>.
\<close>

definition new_deadline :: "TaskModel \<Rightarrow> error + datetime option" where
  "new_deadline task =
     (case deadline task of
        None \<Rightarrow> Inr None
      | Some d \<Rightarrow>
          (case recurrence_interval task of
             None \<Rightarrow> Inl TypeError
           | Some n \<Rightarrow>
               (case datetime_add d (timedelta_days n) of
                  Inl e \<Rightarrow> Inl e
                | Inr d' \<Rightarrow> Inr (Some d'))))"

text \<open>
  \<open>complete_task\<close> returns what the call gives (a bool, or the exception that leaves
  it) and the state it leaves behind. \<open>task.completed = True\<close> changes the stored
  object at once. The construction of the new task passes every keyword,
  \<open>recurrence_interval\<close> too. \<open>except ValueError\<close> catches an exception of the
  construction or of the inner \<open>add_task\<close> that is a ValueError (the warning it
  prints is not part of the state); any other exception leaves \<open>complete_task\<close>
  before the file is written. The result of the inner \<open>add_task\<close> is dropped.
\<close>

definition complete_task :: "datetime \<Rightarrow> string \<Rightarrow> TaskManager \<Rightarrow> (error + bool) \<times> TaskManager" where
  "complete_task now ttl m =
     (case map_of (tasks m) ttl of
        None \<Rightarrow> (Inr False, m)
      | Some task0 \<Rightarrow>
          (let task = task0\<lparr>completed := True\<rparr>;
               m1 = m\<lparr>tasks := AList.update ttl task (tasks m)\<rparr>
           in if recurring task \<and> interval_truthy (recurrence_interval task) then
                (case new_deadline task of
                   Inl e \<Rightarrow> (Inl e, m1)
                 | Inr nd \<Rightarrow>
                     (case TaskModel_init now (title task @ '' (Recurring)'') (priority task) nd
                             (dependencies task) True (Some (recurrence_interval task)) of
                        Inl e \<Rightarrow>
                          if is_ValueError e then (Inr True, save_tasks m1) else (Inl e, m1)
                      | Inr new_task \<Rightarrow> (Inr True, save_tasks (snd (add_task new_task m1)))))
              else (Inr True, save_tasks m1)))"

text \<open>
  The list comprehension of \<open>get_pending_dependencies\<close>: \<open>self.tasks[dep]\<close> raises
  KeyError at the first dependency that is not a key of the store.
\<close>

fun pending_of :: "store \<Rightarrow> string list \<Rightarrow> error + string list" where
  "pending_of d [] = Inr []"
| "pending_of d (dep # deps) =
     (case map_of d dep of
        None \<Rightarrow> Inl (KeyError dep)
      | Some t \<Rightarrow>
          (case pending_of d deps of
             Inl e \<Rightarrow> Inl e
           | Inr r \<Rightarrow> Inr (if \<not> completed t then dep # r else r)))"

definition get_pending_dependencies :: "string \<Rightarrow> TaskManager \<Rightarrow> error + string list" where
  "get_pending_dependencies ttl m =
     (case map_of (tasks m) ttl of
        None \<Rightarrow> Inr []
      | Some task \<Rightarrow> pending_of (tasks m) (dependencies task))"

section \<open>Runs of the store and concrete stores\<close>

text \<open>
  The operations of the store, and the manager after a call (whatever the call
  answers, or raises). \<open>get_pending_dependencies\<close> only reads. A call of
  \<open>complete_task\<close> comes with the reading of the clock it makes.
\<close>

datatype operation =
    Add TaskModel
  | Complete datetime string
  | PendingDependencies string

fun step :: "operation \<Rightarrow> TaskManager \<Rightarrow> TaskManager" where
  "step (Add task) m = snd (add_task task m)"
| "step (Complete now ttl) m = snd (complete_task now ttl m)"
| "step (PendingDependencies ttl) m = m"

fun run :: "operation list \<Rightarrow> TaskManager \<Rightarrow> TaskManager" where
  "run [] m = m"
| "run (oper # opers) m = run opers (step oper m)"

text \<open>Every dependency of every stored task is a key of the store.\<close>

definition deps_closed :: "store \<Rightarrow> bool" where
  "deps_closed d = list_all (\<lambda>(k, t). list_all (has_key d) (dependencies t)) d"

text \<open>
  The manager of a process that found no file, and the tasks of the specification's
  scenario: A with no dependency, B that depends on A.
\<close>

definition empty_manager :: TaskManager where
  "empty_manager = \<lparr>tasks = [], disk = None, writes = 0\<rparr>"

definition task_A :: TaskModel where
  "task_A = \<lparr>title = ''A'', priority = MEDIUM, deadline = None, dependencies = [],
             recurring = False, recurrence_interval = None, completed = False,
             created_at = 1000\<rparr>"

definition task_B :: TaskModel where
  "task_B = \<lparr>title = ''B'', priority = HIGH, deadline = None, dependencies = [''A''],
             recurring = False, recurrence_interval = None, completed = False,
             created_at = 1000\<rparr>"

definition manager_A :: TaskManager where
  "manager_A = snd (add_task task_A empty_manager)"

definition manager_AB :: TaskManager where
  "manager_AB = snd (add_task task_B manager_A)"

text \<open>
  Recurring tasks, as values of the class (the constructor does not build them, see
  \<open>TaskModel_init\<close>): R, due at 2000 and every 3 days; W, the weekly task of the
  specification's scenario; a task titled as the successor of R; and a task due at the
  last instant Python can represent.
\<close>

definition task_R :: TaskModel where
  "task_R = \<lparr>title = ''R'', priority = LOW, deadline = Some 2000, dependencies = [],
             recurring = True, recurrence_interval = Some 3, completed = False,
             created_at = 1000\<rparr>"

definition manager_R :: TaskManager where
  "manager_R = snd (add_task task_R empty_manager)"

definition task_W :: TaskModel where
  "task_W = \<lparr>title = ''W'', priority = HIGH, deadline = Some 2000, dependencies = [],
             recurring = True, recurrence_interval = Some 7, completed = False,
             created_at = 1000\<rparr>"

definition manager_W :: TaskManager where
  "manager_W = snd (add_task task_W empty_manager)"

definition task_R_next :: TaskModel where
  "task_R_next = \<lparr>title = ''R (Recurring)'', priority = LOW, deadline = None,
                  dependencies = [], recurring = False, recurrence_interval = None,
                  completed = False, created_at = 1000\<rparr>"

definition manager_RR :: TaskManager where
  "manager_RR = snd (add_task task_R_next manager_R)"

definition task_last :: TaskModel where
  "task_last = \<lparr>title = ''L'', priority = LOW, deadline = Some datetime_max, dependencies = [],
                recurring = True, recurrence_interval = Some 1, completed = False,
                created_at = 1000\<rparr>"

definition manager_last :: TaskManager where
  "manager_last = snd (add_task task_last empty_manager)"

section \<open>Construction\<close>

text \<open>
  A construction that passes the keyword \<open>recurrence_interval\<close> never returns a task:
  with None or a number within the bounds the validator of the interval raises
  AttributeError, whatever the other fields are; with a number out of the bounds the
  construction fails with a ValidationError.
\<close>

lemma TaskModel_init_keyword_raises:
  "\<forall>n. v = Some n \<longrightarrow> 1 \<le> n \<and> n \<le> 365 \<Longrightarrow>
     TaskModel_init now ttl prio dl deps rec (Some v) = Inl AttributeError"
  by (cases v)
     (auto simp: TaskModel_init_def field_violations_def recurrence_interval_field_def
        validate_recurrence_interval_def)

lemma TaskModel_init_keyword_never:
  "TaskModel_init now ttl prio dl deps rec (Some v) \<noteq> Inr t"
  by (cases v)
     (auto simp: TaskModel_init_def field_violations_def recurrence_interval_field_def
        validate_recurrence_interval_def)

text \<open>
  A construction that does not pass it succeeds exactly when the title has 1 to 100
  characters and there is no deadline before the clock; \<open>recurring\<close> is not looked at.
\<close>

lemma TaskModel_init_omitted_Inr_iff:
  "TaskModel_init now ttl prio dl deps rec None = Inr t \<longleftrightarrow>
     1 \<le> length ttl \<and> length ttl \<le> 100
     \<and> (\<forall>d. dl = Some d \<longrightarrow> now \<le> d)
     \<and> t = \<lparr>title = ttl, priority = prio, deadline = dl, dependencies = deps, recurring = rec,
          recurrence_interval = None, completed = False, created_at = now\<rparr>"
  by (auto simp: TaskModel_init_def field_violations_def recurrence_interval_field_def
      title_field_def violations_of_def deadline_must_be_future_def Suc_le_eq
      split: option.splits if_splits)

lemma TaskModel_init_omitted_Inl:
  "TaskModel_init now ttl prio dl deps rec None = Inl e \<Longrightarrow> \<exists>vs. e = ValidationError vs \<and> vs \<noteq> []"
  by (auto simp: TaskModel_init_def field_violations_def recurrence_interval_field_def
      split: if_splits)

text \<open>
  The rule of the deadline as the code has it, where a construction can succeed at
  all: with a valid title and the interval not passed, the construction fails (with a
  ValidationError) exactly when a deadline is given and it is before the clock.
\<close>

lemma deadline_rule:
  assumes "1 \<le> length ttl" and "length ttl \<le> 100"
  shows "(\<exists>vs. TaskModel_init now ttl prio dl deps rec None = Inl (ValidationError vs))
          \<longleftrightarrow> (\<exists>d. dl = Some d \<and> d < now)"
proof (cases "TaskModel_init now ttl prio dl deps rec None")
  case (Inl e)
  then have "\<not> (\<forall>d. dl = Some d \<longrightarrow> now \<le> d)"
    using assms TaskModel_init_omitted_Inr_iff [of now ttl prio dl deps rec] by auto
  with Inl TaskModel_init_omitted_Inl [OF Inl] show ?thesis by (auto simp: not_le)
next
  case (Inr t)
  then have "\<forall>d. dl = Some d \<longrightarrow> now \<le> d"
    by (simp add: TaskModel_init_omitted_Inr_iff)
  with Inr show ?thesis by auto
qed

text \<open>
  C1. The claim: a construction fails if and only if a deadline is given with
  deadline \<open>\<le>\<close> now, so a deadline equal to now is refused. The validator
  \<open>deadline_must_be_future\<close> compares with \<open><\<close>: it returns a deadline equal to
  the clock, and the construction with that deadline (the interval not passed)
  succeeds, against the validator's own message ('Deadline must be in the future').
\<close>

theorem deadline_equal_now_accepted:
  "deadline_must_be_future 1000 (Some 1000) = Inr (Some 1000)
   \<and> TaskModel_init 1000 ''A'' MEDIUM (Some 1000) [] False None =
       Inr \<lparr>title = ''A'', priority = MEDIUM, deadline = Some 1000, dependencies = [],
            recurring = False, recurrence_interval = None, completed = False,
            created_at = 1000\<rparr>"
  by (simp add: deadline_must_be_future_def TaskModel_init_omitted_Inr_iff)

text \<open>
  C10. The claim: a construction fails (with a ValidationError) exactly when one of
  \<open>recurring\<close> and \<open>recurrence_interval\<close> is set without the other. The validator
  of the interval raises AttributeError on every call, so with the keyword passed all
  four combinations leave by that exception, the valid ones too and none by a
  ValidationError; and with the keyword not passed, \<open>recurring=True\<close> without an
  interval is accepted.
\<close>

theorem recurrence_pair_raises:
  "TaskModel_init 0 ''A'' LOW None [] True (Some (Some 7)) = Inl AttributeError
   \<and> TaskModel_init 0 ''A'' LOW None [] False (Some None) = Inl AttributeError
   \<and> TaskModel_init 0 ''A'' LOW None [] True (Some None) = Inl AttributeError
   \<and> TaskModel_init 0 ''A'' LOW None [] False (Some (Some 7)) = Inl AttributeError
   \<and> TaskModel_init 0 ''A'' LOW None [] True None =
       Inr \<lparr>title = ''A'', priority = LOW, deadline = None, dependencies = [],
            recurring = True, recurrence_interval = None, completed = False, created_at = 0\<rparr>"
  by (simp add: TaskModel_init_keyword_raises TaskModel_init_omitted_Inr_iff)

section \<open>The dict operations and the file\<close>

lemma has_key_update: "has_key (AList.update k v d) k' \<longleftrightarrow> k' = k \<or> has_key d k'"
  by (simp add: has_key_def update_conv')

lemma has_key_iff: "has_key d k \<longleftrightarrow> k \<in> fst ` set d"
  by (simp add: has_key_def map_of_eq_None_iff)

text \<open>Storing under a key the dict does not have appends the entry.\<close>

lemma update_absent: "\<not> has_key d k \<Longrightarrow> AList.update k v d = d @ [(k, v)]"
  by (induction d) (auto simp: has_key_def)

lemma tasks_save_tasks: "tasks (save_tasks m) = tasks m"
  by (simp add: save_tasks_def)

lemma disk_save_tasks: "disk (save_tasks m) = Some (dump (tasks m))"
  by (simp add: save_tasks_def)

lemma writes_save_tasks: "writes (save_tasks m) = Suc (writes m)"
  by (simp add: save_tasks_def)

section \<open>Adding a task\<close>

lemma add_task_refused:
  "has_key (tasks m) (title task) \<or> (\<exists>dep \<in> set (dependencies task). \<not> has_key (tasks m) dep)
     \<Longrightarrow> add_task task m = (False, m)"
  by (auto simp: add_task_def list_ex_iff)

lemma add_task_accepted:
  assumes "\<not> has_key (tasks m) (title task)"
    and "\<forall>dep \<in> set (dependencies task). has_key (tasks m) dep"
  shows "add_task task m = (True, save_tasks (m\<lparr>tasks := tasks m @ [(title task, task)]\<rparr>))"
  using assms by (auto simp: add_task_def list_ex_iff update_absent)

text \<open>
  C2. \<open>add_task\<close> returns False and leaves the whole state as it was (the dict, the
  file and the count of writes) when the title is a key of the store or a dependency is
  not. Otherwise it returns True, the task is stored under its title after the entries
  that were there, and the file is written once and holds, title by title and in the
  order of the store, the eight fields of every task of the new store. So for a title
  that is not in the store yet, any priority, and no deadline, dependencies or
  recurrence: \<open>add_task\<close> of the task returns True, and a later \<open>add_task\<close> of any
  task with the same title returns False and changes nothing.
\<close>

theorem add_task_contract:
  "(has_key (tasks m) (title task) \<or> (\<exists>dep \<in> set (dependencies task). \<not> has_key (tasks m) dep)
      \<longrightarrow> add_task task m = (False, m))
   \<and> (\<not> has_key (tasks m) (title task) \<and> (\<forall>dep \<in> set (dependencies task). has_key (tasks m) dep)
      \<longrightarrow> (\<exists>m'. add_task task m = (True, m')
             \<and> tasks m' = tasks m @ [(title task, task)]
             \<and> map_of (tasks m') = (map_of (tasks m))(title task \<mapsto> task)
             \<and> disk m' =
                 Some (map (\<lambda>(k, t).
                         (k, \<lparr>json_title = title t,
                              json_priority =
                                (case priority t of
                                   LOW \<Rightarrow> ''low'' | MEDIUM \<Rightarrow> ''medium'' | HIGH \<Rightarrow> ''high''),
                              json_deadline = map_option Iso (deadline t),
                              json_dependencies = dependencies t,
                              json_recurring = recurring t,
                              json_recurrence_interval = recurrence_interval t,
                              json_completed = completed t,
                              json_created_at = Iso (created_at t)\<rparr>))
                       (tasks m @ [(title task, task)]))
             \<and> writes m' = Suc (writes m)))
   \<and> (\<not> has_key (tasks m) ttl
      \<longrightarrow> (\<exists>m1. add_task
                    \<lparr>title = ttl, priority = prio, deadline = None, dependencies = [],
                     recurring = False, recurrence_interval = None, completed = False,
                     created_at = created\<rparr> m = (True, m1)
             \<and> (\<forall>t'. title t' = ttl \<longrightarrow> add_task t' m1 = (False, m1))))"
proof (intro conjI impI)
  assume "has_key (tasks m) (title task) \<or> (\<exists>dep \<in> set (dependencies task). \<not> has_key (tasks m) dep)"
  then show "add_task task m = (False, m)" by (rule add_task_refused)
next
  assume a: "\<not> has_key (tasks m) (title task) \<and> (\<forall>dep \<in> set (dependencies task). has_key (tasks m) dep)"
  let ?m' = "save_tasks (m\<lparr>tasks := tasks m @ [(title task, task)]\<rparr>)"
  let ?doc = "\<lambda>(k, t).
                         (k, \<lparr>json_title = title t,
                              json_priority =
                                (case priority t of
                                   LOW \<Rightarrow> ''low'' | MEDIUM \<Rightarrow> ''medium'' | HIGH \<Rightarrow> ''high''),
                              json_deadline = map_option Iso (deadline t),
                              json_dependencies = dependencies t,
                              json_recurring = recurring t,
                              json_recurrence_interval = recurrence_interval t,
                              json_completed = completed t,
                              json_created_at = Iso (created_at t)\<rparr>)"
  have value_case: "Priority_value p =
      (case p of LOW \<Rightarrow> ''low'' | MEDIUM \<Rightarrow> ''medium'' | HIGH \<Rightarrow> ''high'')" for p
    by (cases p) simp_all
  have "add_task task m = (True, ?m')" using a by (simp add: add_task_accepted)
  moreover have "tasks ?m' = tasks m @ [(title task, task)]" by (simp add: tasks_save_tasks)
  moreover have "map_of (tasks ?m') = (map_of (tasks m))(title task \<mapsto> task)"
    using a update_absent [of "tasks m" "title task" task]
    by (simp add: tasks_save_tasks update_conv' [symmetric])
  moreover have "disk ?m' = Some (map ?doc (tasks m @ [(title task, task)]))"
    by (simp add: save_tasks_def dump_def to_json_def value_case)
  moreover have "writes ?m' = Suc (writes m)" by (simp add: save_tasks_def)
  ultimately show "\<exists>m'. add_task task m = (True, m')
             \<and> tasks m' = tasks m @ [(title task, task)]
             \<and> map_of (tasks m') = (map_of (tasks m))(title task \<mapsto> task)
             \<and> disk m' = Some (map ?doc (tasks m @ [(title task, task)]))
             \<and> writes m' = Suc (writes m)" by blast
next
  assume a: "\<not> has_key (tasks m) ttl"
  let ?t = "\<lparr>title = ttl, priority = prio, deadline = None, dependencies = [], recurring = False,
        recurrence_interval = None, completed = False, created_at = created\<rparr>"
  let ?m1 = "save_tasks (m\<lparr>tasks := tasks m @ [(ttl, ?t)]\<rparr>)"
  have first: "add_task ?t m = (True, ?m1)"
    using a add_task_accepted [of m ?t] by simp
  have key: "has_key (tasks ?m1) ttl"
    by (simp add: tasks_save_tasks has_key_def)
  have second: "add_task t' ?m1 = (False, ?m1)" if "title t' = ttl" for t'
    using key that by (simp add: add_task_refused)
  from first second show "\<exists>m1. add_task ?t m = (True, m1)
             \<and> (\<forall>t'. title t' = ttl \<longrightarrow> add_task t' m1 = (False, m1))" by blast
qed

lemma manager_A_eq:
  "manager_A = \<lparr>tasks = [(''A'', task_A)], disk = Some [(''A'', to_json task_A)], writes = 1\<rparr>"
  by (simp add: manager_A_def empty_manager_def add_task_def has_key_def task_A_def
      save_tasks_def dump_def)

lemma manager_AB_eq:
  "manager_AB = \<lparr>tasks = [(''A'', task_A), (''B'', task_B)],
     disk = Some [(''A'', to_json task_A), (''B'', to_json task_B)], writes = 2\<rparr>"
  by (simp add: manager_AB_def manager_A_eq add_task_def has_key_def task_A_def task_B_def
      save_tasks_def dump_def)

theorem add_task_contract_witness:
  "add_task task_A manager_A = (False, manager_A)
   \<and> add_task task_B empty_manager = (False, empty_manager)
   \<and> (\<exists>m'. add_task task_B manager_A = (True, m')
          \<and> tasks m' = [(''A'', task_A), (''B'', task_B)]
          \<and> disk m' =
              Some [(''A'', \<lparr>json_title = ''A'', json_priority = ''medium'', json_deadline = None,
                            json_dependencies = [], json_recurring = False,
                            json_recurrence_interval = None, json_completed = False,
                            json_created_at = Iso 1000\<rparr>),
                    (''B'', \<lparr>json_title = ''B'', json_priority = ''high'', json_deadline = None,
                            json_dependencies = [''A''], json_recurring = False,
                            json_recurrence_interval = None, json_completed = False,
                            json_created_at = Iso 1000\<rparr>)]
          \<and> writes m' = 2)
   \<and> (\<exists>m1. add_task task_A empty_manager = (True, m1) \<and> add_task task_A m1 = (False, m1))"
proof -
  have 1: "add_task task_A manager_A = (False, manager_A)"
    using add_task_contract [of manager_A task_A "[]"]
    by (simp add: manager_A_eq has_key_def task_A_def)
  have 2: "add_task task_B empty_manager = (False, empty_manager)"
    using add_task_contract [of empty_manager task_B "[]"]
    by (simp add: empty_manager_def has_key_def task_B_def)
  have 3: "\<exists>m'. add_task task_B manager_A = (True, m')
          \<and> tasks m' = [(''A'', task_A), (''B'', task_B)]
          \<and> disk m' =
              Some [(''A'', \<lparr>json_title = ''A'', json_priority = ''medium'', json_deadline = None,
                            json_dependencies = [], json_recurring = False,
                            json_recurrence_interval = None, json_completed = False,
                            json_created_at = Iso 1000\<rparr>),
                    (''B'', \<lparr>json_title = ''B'', json_priority = ''high'', json_deadline = None,
                            json_dependencies = [''A''], json_recurring = False,
                            json_recurrence_interval = None, json_completed = False,
                            json_created_at = Iso 1000\<rparr>)]
          \<and> writes m' = 2"
    using add_task_contract [of manager_A task_B "''A''"]
    by (simp add: manager_A_eq has_key_def) (auto simp: task_A_def task_B_def)
  have 4: "\<exists>m1. add_task task_A empty_manager = (True, m1) \<and> add_task task_A m1 = (False, m1)"
    using add_task_contract [of empty_manager task_A "''A''" MEDIUM 1000]
    by (simp add: empty_manager_def has_key_def) (auto simp: task_A_def)
  from 1 2 3 4 show ?thesis by blast
qed

section \<open>Pending dependencies\<close>

text \<open>
  When every dependency in the list is a key of the dict, the comprehension returns,
  in order, the ones whose task is not completed.
\<close>

lemma pending_of_present:
  "\<forall>dep \<in> set deps. has_key d dep \<Longrightarrow>
     pending_of d deps =
       Inr (filter (\<lambda>dep. case map_of d dep of None \<Rightarrow> False | Some t \<Rightarrow> \<not> completed t) deps)"
  by (induction deps) (auto simp: has_key_def)

text \<open>
  C7. \<open>get_pending_dependencies\<close> returns the empty list for a title that is not in
  the store; for a title in the store whose task's dependencies are all in the store,
  it returns the dependencies of that task, in their order and with their repetitions,
  whose task has \<open>completed\<close> false.
\<close>

theorem get_pending_dependencies_contract:
  "(map_of (tasks m) ttl = None \<longrightarrow> get_pending_dependencies ttl m = Inr [])
   \<and> (map_of (tasks m) ttl = Some task \<and> (\<forall>dep \<in> set (dependencies task). has_key (tasks m) dep)
        \<longrightarrow> get_pending_dependencies ttl m =
              Inr (filter (\<lambda>dep. case map_of (tasks m) dep of
                                   None \<Rightarrow> False
                                 | Some t \<Rightarrow> \<not> completed t)
                     (dependencies task)))"
  by (simp add: get_pending_dependencies_def pending_of_present)

theorem get_pending_dependencies_contract_witness:
  "get_pending_dependencies ''C'' manager_AB = Inr []
   \<and> get_pending_dependencies ''B'' manager_AB = Inr [''A'']
   \<and> get_pending_dependencies ''A'' manager_AB = Inr []"
  using get_pending_dependencies_contract [of manager_AB "''C''"]
    get_pending_dependencies_contract [of manager_AB "''B''" task_B]
    get_pending_dependencies_contract [of manager_AB "''A''" task_A]
  by (simp add: manager_AB_eq has_key_def task_A_def task_B_def)

section \<open>Completing a task\<close>

lemma add_task_tasks_cases:
  "tasks (snd (add_task t m)) = tasks m
   \<or> (\<not> has_key (tasks m) (title t) \<and> (\<forall>dep \<in> set (dependencies t). has_key (tasks m) dep)
       \<and> tasks (snd (add_task t m)) = tasks m @ [(title t, t)])"
  by (auto simp: add_task_def list_ex_iff update_absent tasks_save_tasks)

lemma add_task_lookup:
  "has_key (tasks m) k \<Longrightarrow> map_of (tasks (snd (add_task t m))) k = map_of (tasks m) k"
  using add_task_tasks_cases [of t m] by (auto simp: has_key_def map_add_def split: option.splits)

lemma new_deadline_completed: "new_deadline (t\<lparr>completed := c\<rparr>) = new_deadline t"
  by (simp add: new_deadline_def split: option.splits)

lemma complete_task_absent:
  "map_of (tasks m) ttl = None \<Longrightarrow> complete_task now ttl m = (Inr False, m)"
  by (simp add: complete_task_def)

text \<open>
  The ways \<open>complete_task\<close> goes on for a title in the store: no recurrence; an
  exception of the line that computes the new deadline; and the construction of the
  new task.
\<close>

lemma complete_task_plain:
  assumes "map_of (tasks m) ttl = Some T"
    and "\<not> (recurring T \<and> interval_truthy (recurrence_interval T))"
  shows "complete_task now ttl m =
           (Inr True, save_tasks (m\<lparr>tasks := AList.update ttl (T\<lparr>completed := True\<rparr>) (tasks m)\<rparr>))"
  using assms by (auto simp: complete_task_def Let_def)

lemma complete_task_raises:
  assumes "map_of (tasks m) ttl = Some T"
    and "recurring T" and "interval_truthy (recurrence_interval T)"
    and "new_deadline T = Inl e"
  shows "complete_task now ttl m =
           (Inl e, m\<lparr>tasks := AList.update ttl (T\<lparr>completed := True\<rparr>) (tasks m)\<rparr>)"
  using assms by (simp add: complete_task_def Let_def new_deadline_completed)

lemma complete_task_synthesis:
  assumes "map_of (tasks m) ttl = Some T"
    and "recurring T" and "interval_truthy (recurrence_interval T)"
    and "new_deadline T = Inr nd"
  shows "complete_task now ttl m =
           (case TaskModel_init now (title T @ '' (Recurring)'') (priority T) nd
                   (dependencies T) True (Some (recurrence_interval T)) of
              Inl e \<Rightarrow>
                if is_ValueError e
                then (Inr True,
                      save_tasks (m\<lparr>tasks := AList.update ttl (T\<lparr>completed := True\<rparr>) (tasks m)\<rparr>))
                else (Inl e, m\<lparr>tasks := AList.update ttl (T\<lparr>completed := True\<rparr>) (tasks m)\<rparr>)
            | Inr new_task \<Rightarrow>
                (Inr True,
                 save_tasks (snd (add_task new_task
                   (m\<lparr>tasks := AList.update ttl (T\<lparr>completed := True\<rparr>) (tasks m)\<rparr>)))))"
  using assms by (simp add: complete_task_def Let_def new_deadline_completed split: sum.splits)

text \<open>
  For a stored recurring task with an interval within the bounds, the construction of
  the new task raises AttributeError, which is not a ValueError: \<open>complete_task\<close>
  leaves by the exception, with the task marked in memory and the file not written.
\<close>

lemma complete_task_attribute_error:
  assumes "map_of (tasks m) ttl = Some T"
    and "recurring T" and "recurrence_interval T = Some n" and "1 \<le> n" and "n \<le> 365"
    and "new_deadline T = Inr nd"
  shows "complete_task now ttl m =
           (Inl AttributeError, m\<lparr>tasks := AList.update ttl (T\<lparr>completed := True\<rparr>) (tasks m)\<rparr>)"
proof -
  have "interval_truthy (recurrence_interval T)"
    using assms by (simp add: interval_truthy_def)
  moreover have "TaskModel_init now (title T @ '' (Recurring)'') (priority T) nd
                   (dependencies T) True (Some (recurrence_interval T)) = Inl AttributeError"
    using assms by (simp add: TaskModel_init_keyword_raises)
  ultimately show ?thesis
    using complete_task_synthesis [OF assms(1,2) _ assms(6), of now]
    by (simp add: is_ValueError_def)
qed

text \<open>
  Whatever way it goes, the store after \<open>complete_task\<close> of a title in the store is
  the old one with the task marked, and at most one entry appended by the inner
  \<open>add_task\<close>.
\<close>

lemma complete_task_tasks_cases:
  assumes "map_of (tasks m) ttl = Some T"
  shows "tasks (snd (complete_task now ttl m)) = AList.update ttl (T\<lparr>completed := True\<rparr>) (tasks m)
    \<or> (\<exists>nt. \<not> has_key (AList.update ttl (T\<lparr>completed := True\<rparr>) (tasks m)) (title nt)
          \<and> (\<forall>dep \<in> set (dependencies nt).
                 has_key (AList.update ttl (T\<lparr>completed := True\<rparr>) (tasks m)) dep)
          \<and> tasks (snd (complete_task now ttl m)) =
              AList.update ttl (T\<lparr>completed := True\<rparr>) (tasks m) @ [(title nt, nt)])"
proof (cases "recurring T \<and> interval_truthy (recurrence_interval T)")
  case False
  with assms show ?thesis by (simp add: complete_task_plain tasks_save_tasks)
next
  case True
  show ?thesis
  proof (cases "new_deadline T")
    case (Inl e)
    with assms True show ?thesis by (simp add: complete_task_raises)
  next
    case (Inr nd)
    let ?m1 = "m\<lparr>tasks := AList.update ttl (T\<lparr>completed := True\<rparr>) (tasks m)\<rparr>"
    show ?thesis
    proof (cases "TaskModel_init now (title T @ '' (Recurring)'') (priority T) nd
                    (dependencies T) True (Some (recurrence_interval T))")
      case (Inl e)
      with assms True Inr show ?thesis by (simp add: complete_task_synthesis tasks_save_tasks)
    next
      case new: (Inr nt)
      have "tasks (snd (complete_task now ttl m)) = tasks (snd (add_task nt ?m1))"
        using assms True Inr new by (simp add: complete_task_synthesis tasks_save_tasks)
      with add_task_tasks_cases [of nt ?m1] show ?thesis by auto
    qed
  qed
qed

lemma complete_task_lookup_self:
  assumes "map_of (tasks m) ttl = Some T"
  shows "map_of (tasks (snd (complete_task now ttl m))) ttl = Some (T\<lparr>completed := True\<rparr>)"
  using complete_task_tasks_cases [OF assms, of now]
  by (auto simp: update_conv' has_key_def)

lemma complete_task_lookup_other:
  assumes "map_of (tasks m) k = Some t" and "k \<noteq> ttl"
  shows "map_of (tasks (snd (complete_task now ttl m))) k = Some t"
proof (cases "map_of (tasks m) ttl")
  case None
  with assms show ?thesis by (simp add: complete_task_absent)
next
  case (Some T)
  from complete_task_tasks_cases [OF Some, of now] assms show ?thesis
    by (auto simp: update_conv' has_key_def map_add_def split: option.splits)
qed

lemma new_deadline_Some:
  assumes "deadline T = Some D" and "recurrence_interval T = Some i"
    and "datetime_min \<le> D + timedelta_days i" and "D + timedelta_days i \<le> datetime_max"
  shows "new_deadline T = Inr (Some (D + timedelta_days i))"
  using assms by (simp add: new_deadline_def datetime_add_def)

text \<open>The stores of the recurring tasks.\<close>

lemma manager_R_eq:
  "manager_R = \<lparr>tasks = [(''R'', task_R)], disk = Some [(''R'', to_json task_R)], writes = 1\<rparr>"
  by (simp add: manager_R_def empty_manager_def add_task_def has_key_def task_R_def
      save_tasks_def dump_def)

lemma manager_W_eq:
  "manager_W = \<lparr>tasks = [(''W'', task_W)], disk = Some [(''W'', to_json task_W)], writes = 1\<rparr>"
  by (simp add: manager_W_def empty_manager_def add_task_def has_key_def task_W_def
      save_tasks_def dump_def)

lemma manager_RR_eq:
  "manager_RR =
     \<lparr>tasks = [(''R'', task_R), (''R (Recurring)'', task_R_next)],
      disk = Some [(''R'', to_json task_R), (''R (Recurring)'', to_json task_R_next)],
      writes = 2\<rparr>"
  by (simp add: manager_RR_def manager_R_eq add_task_def has_key_def task_R_def task_R_next_def
      save_tasks_def dump_def)

lemma manager_last_eq:
  "manager_last = \<lparr>tasks = [(''L'', task_last)], disk = Some [(''L'', to_json task_last)], writes = 1\<rparr>"
  by (simp add: manager_last_def empty_manager_def add_task_def has_key_def task_last_def
      save_tasks_def dump_def)

lemma new_deadline_R: "new_deadline task_R = Inr (Some 259200002000)"
  by (simp add: new_deadline_def task_R_def datetime_add_def timedelta_days_def
      datetime_min_def datetime_max_def)

text \<open>
  C3. The claim: \<open>complete_task\<close> of a title in the store marks the task, writes the
  file and returns True. For the recurring task R (every 3 days, due after the clock),
  added to the empty store, \<open>complete_task\<close> builds the successor with the keyword
  \<open>recurrence_interval\<close>, the construction raises AttributeError, and the call leaves
  by it: R is marked in memory only, the file still holds R not completed, nothing is
  written and nothing is returned.
\<close>

theorem complete_task_recurring_raises:
  "add_task task_R empty_manager = (True, manager_R)
   \<and> disk manager_R =
       Some [(''R'', \<lparr>json_title = ''R'', json_priority = ''low'', json_deadline = Some (Iso 2000),
                      json_dependencies = [], json_recurring = True,
                      json_recurrence_interval = Some 3, json_completed = False,
                      json_created_at = Iso 1000\<rparr>)]
   \<and> complete_task 1000 ''R'' manager_R =
       (Inl AttributeError,
        \<lparr>tasks = [(''R'', task_R\<lparr>completed := True\<rparr>)], disk = disk manager_R,
         writes = writes manager_R\<rparr>)"
proof -
  have "add_task task_R empty_manager = (True, manager_R)"
    by (simp add: manager_R_def add_task_def empty_manager_def has_key_def task_R_def)
  moreover have "disk manager_R =
       Some [(''R'', \<lparr>json_title = ''R'', json_priority = ''low'', json_deadline = Some (Iso 2000),
                      json_dependencies = [], json_recurring = True,
                      json_recurrence_interval = Some 3, json_completed = False,
                      json_created_at = Iso 1000\<rparr>)]"
    by (simp add: manager_R_eq to_json_def task_R_def)
  moreover have "complete_task 1000 ''R'' manager_R =
       (Inl AttributeError,
        \<lparr>tasks = [(''R'', task_R\<lparr>completed := True\<rparr>)], disk = disk manager_R,
         writes = writes manager_R\<rparr>)"
    using complete_task_attribute_error [of manager_R "''R''" task_R 3 "Some 259200002000" 1000]
      new_deadline_R
    by (simp add: manager_R_eq) (simp add: task_R_def)
  ultimately show ?thesis by simp
qed

text \<open>
  C4. The claim: completing a recurring task whose derived title is not in the store
  and whose derived deadline is in the future adds the successor and persists the
  completion. For the weekly task W of the specification's scenario (interval 7,
  deadline D = 2000, completed at 1000) the hypotheses hold, and \<open>complete_task\<close>
  leaves by the AttributeError of the successor's construction: no successor is in the
  store, and the file is as it was, with W not completed.
\<close>

theorem complete_task_no_successor:
  "map_of (tasks manager_W) (title task_W) = Some task_W
   \<and> recurring task_W \<and> recurrence_interval task_W = Some 7 \<and> deadline task_W = Some 2000
   \<and> \<not> has_key (tasks manager_W) (title task_W @ '' (Recurring)'')
   \<and> 1000 < 2000 + timedelta_days 7
   \<and> complete_task 1000 (title task_W) manager_W =
       (Inl AttributeError,
        \<lparr>tasks = [(''W'', task_W\<lparr>completed := True\<rparr>)], disk = disk manager_W,
         writes = writes manager_W\<rparr>)
   \<and> \<not> has_key (tasks (snd (complete_task 1000 (title task_W) manager_W)))
         (title task_W @ '' (Recurring)'')"
proof -
  have stored: "map_of (tasks manager_W) (title task_W) = Some task_W"
    by (simp add: manager_W_eq task_W_def)
  have fresh: "\<not> has_key (tasks manager_W) (title task_W @ '' (Recurring)'')"
    by (simp add: manager_W_eq task_W_def has_key_def)
  have nd: "new_deadline task_W = Inr (Some (2000 + timedelta_days 7))"
    by (rule new_deadline_Some)
      (simp_all add: task_W_def timedelta_days_def datetime_min_def datetime_max_def)
  have res: "complete_task 1000 (title task_W) manager_W =
       (Inl AttributeError,
        \<lparr>tasks = [(''W'', task_W\<lparr>completed := True\<rparr>)], disk = disk manager_W,
         writes = writes manager_W\<rparr>)"
    using complete_task_attribute_error [OF stored _ _ _ _ nd, of 7 1000]
    by (simp add: task_W_def) (simp add: manager_W_eq)
  have "\<not> has_key (tasks (snd (complete_task 1000 (title task_W) manager_W)))
         (title task_W @ '' (Recurring)'')"
    unfolding res by (simp add: task_W_def has_key_def)
  with stored fresh res show ?thesis
    by (simp add: task_W_def timedelta_days_def)
qed

text \<open>
  C5. The claim: when the synthesis of the successor fails, the failure is swallowed,
  \<open>complete_task\<close> returns True and the completion is persisted. No failure of the
  synthesis is swallowed for a task with an interval within 1 to 365. Completed after
  its derived deadline has passed, or with the derived title in the store already, R
  makes the successor's construction raise AttributeError, which \<open>except ValueError\<close>
  does not catch; and for a task due at the last instant of the calendar the line
  before the \<open>try\<close> raises OverflowError. Each time the call leaves by the exception
  and the file is not written.
\<close>

theorem complete_task_failure_escapes:
  "complete_task 900000000000 ''R'' manager_R =
     (Inl AttributeError,
      \<lparr>tasks = [(''R'', task_R\<lparr>completed := True\<rparr>)], disk = disk manager_R,
       writes = writes manager_R\<rparr>)
   \<and> has_key (tasks manager_RR) ''R (Recurring)''
   \<and> complete_task 1000 ''R'' manager_RR =
       (Inl AttributeError,
        \<lparr>tasks = [(''R'', task_R\<lparr>completed := True\<rparr>), (''R (Recurring)'', task_R_next)],
         disk = disk manager_RR, writes = writes manager_RR\<rparr>)
   \<and> complete_task 1000 ''L'' manager_last =
       (Inl OverflowError,
        \<lparr>tasks = [(''L'', task_last\<lparr>completed := True\<rparr>)], disk = disk manager_last,
         writes = writes manager_last\<rparr>)"
proof -
  have 1: "complete_task 900000000000 ''R'' manager_R =
     (Inl AttributeError,
      \<lparr>tasks = [(''R'', task_R\<lparr>completed := True\<rparr>)], disk = disk manager_R,
       writes = writes manager_R\<rparr>)"
    using complete_task_attribute_error
      [of manager_R "''R''" task_R 3 "Some 259200002000" 900000000000] new_deadline_R
    by (simp add: manager_R_eq) (simp add: task_R_def)
  have 2: "has_key (tasks manager_RR) ''R (Recurring)''"
    by (simp add: manager_RR_eq has_key_def)
  have 3: "complete_task 1000 ''R'' manager_RR =
       (Inl AttributeError,
        \<lparr>tasks = [(''R'', task_R\<lparr>completed := True\<rparr>), (''R (Recurring)'', task_R_next)],
         disk = disk manager_RR, writes = writes manager_RR\<rparr>)"
    using complete_task_attribute_error
      [of manager_RR "''R''" task_R 3 "Some 259200002000" 1000] new_deadline_R
    by (simp add: manager_RR_eq) (simp add: task_R_def)
  have "new_deadline task_last = Inl OverflowError"
    by (simp add: new_deadline_def task_last_def datetime_add_def timedelta_days_def
        datetime_max_def datetime_min_def)
  then have 4: "complete_task 1000 ''L'' manager_last =
       (Inl OverflowError,
        \<lparr>tasks = [(''L'', task_last\<lparr>completed := True\<rparr>)], disk = disk manager_last,
         writes = writes manager_last\<rparr>)"
    using complete_task_raises [of manager_last "''L''" task_last OverflowError 1000]
    by (simp add: manager_last_eq) (simp add: task_last_def interval_truthy_def)
  from 1 2 3 4 show ?thesis by simp
qed

section \<open>Saving and loading\<close>

text \<open>
  \<open>parse_obj\<close> never returns a task: the document carries the key
  \<open>recurrence_interval\<close>, so the validator of the interval raises AttributeError, or
  the interval is out of the bounds and the parse fails with a ValidationError.
\<close>

lemma parse_obj_never: "parse_obj now j \<noteq> Inr t"
  by (cases "json_recurrence_interval j")
     (auto simp: parse_obj_def field_violations_def recurrence_interval_field_def
        validate_recurrence_interval_def split: option.splits)

lemma parse_obj_to_json_raises:
  "\<forall>n. recurrence_interval t = Some n \<longrightarrow> 1 \<le> n \<and> n \<le> 365 \<Longrightarrow>
     parse_obj now (to_json t) = Inl AttributeError"
  by (cases "recurrence_interval t")
     (auto simp: parse_obj_def to_json_def field_violations_def recurrence_interval_field_def
        validate_recurrence_interval_def)

text \<open>So no file that holds a task can be loaded, whatever the clock.\<close>

lemma load_items_fails: "data \<noteq> [] \<Longrightarrow> \<exists>e. load_items now data acc = Inl e"
proof (cases data)
  case Nil
  assume "data \<noteq> []"
  with Nil show ?thesis by simp
next
  case (Cons kj rest)
  obtain k j where "kj = (k, j)" by (cases kj)
  with Cons parse_obj_never [of now j] show ?thesis
    by (cases "parse_obj now j") auto
qed

lemma load_saved_fails:
  "tasks m \<noteq> [] \<Longrightarrow> \<exists>e. TaskManager_init now (disk (save_tasks m)) = Inl e"
  using load_items_fails [of "dump (tasks m)" now "[]"]
  by (auto simp: TaskManager_init_def load_tasks_def save_tasks_def dump_def)

text \<open>
  C6. The claim: saving a valid set of tasks and loading the file gives the same
  mapping back. \<open>load_tasks\<close> builds every task with \<open>parse_obj\<close>, which runs the
  validators of a construction on the saved fields, and the validator of the interval
  raises AttributeError: the store of the task A (no deadline, no recurrence), saved,
  cannot be loaded, neither by the running manager nor by a new process.
\<close>

theorem load_of_saved_file_raises:
  "disk (save_tasks manager_A) =
     Some [(''A'', \<lparr>json_title = ''A'', json_priority = ''medium'', json_deadline = None,
                    json_dependencies = [], json_recurring = False,
                    json_recurrence_interval = None, json_completed = False,
                    json_created_at = Iso 1000\<rparr>)]
   \<and> load_tasks 5000 (save_tasks manager_A) = Inl AttributeError
   \<and> TaskManager_init 5000 (disk (save_tasks manager_A)) = Inl AttributeError"
proof -
  have d: "disk (save_tasks manager_A) = Some [(''A'', to_json task_A)]"
    by (simp add: manager_A_eq save_tasks_def dump_def)
  have "parse_obj 5000 (to_json task_A) = Inl AttributeError"
    by (rule parse_obj_to_json_raises) (simp add: task_A_def)
  then have "load_tasks 5000 (save_tasks manager_A) = Inl AttributeError"
    and "TaskManager_init 5000 (disk (save_tasks manager_A)) = Inl AttributeError"
    by (simp_all add: d TaskManager_init_def load_tasks_def)
  moreover have "to_json task_A =
      \<lparr>json_title = ''A'', json_priority = ''medium'', json_deadline = None,
       json_dependencies = [], json_recurring = False,
       json_recurrence_interval = None, json_completed = False,
       json_created_at = Iso 1000\<rparr>"
    by (simp add: to_json_def task_A_def)
  ultimately show ?thesis using d by simp
qed

section \<open>Invariants of the store\<close>

lemma deps_closed_iff:
  "deps_closed d \<longleftrightarrow> (\<forall>(k, t) \<in> set d. \<forall>dep \<in> set (dependencies t). has_key d dep)"
  by (auto simp: deps_closed_def list_all_iff)

lemma set_update_subset: "set (AList.update k v d) \<subseteq> insert (k, v) (set d)"
  by (induction d) auto

text \<open>Marking a stored task keeps the invariant: the keys and the dependencies stay.\<close>

lemma deps_closed_mark:
  assumes "deps_closed d" and "map_of d ttl = Some T"
  shows "deps_closed (AList.update ttl (T\<lparr>completed := c\<rparr>) d)"
proof -
  have in_d: "(ttl, T) \<in> set d"
    using assms(2) by (rule map_of_SomeD)
  have keys: "has_key (AList.update ttl (T\<lparr>completed := c\<rparr>) d) k" if "has_key d k" for k
    using that by (simp add: has_key_update)
  show ?thesis
    unfolding deps_closed_iff
  proof (clarify)
    fix k t dep
    assume kt: "(k, t) \<in> set (AList.update ttl (T\<lparr>completed := c\<rparr>) d)"
      and dep: "dep \<in> set (dependencies t)"
    from kt set_update_subset have "(k, t) = (ttl, T\<lparr>completed := c\<rparr>) \<or> (k, t) \<in> set d"
      by fastforce
    then have "\<exists>t0. (k, t0) \<in> set d \<and> dependencies t0 = dependencies t"
      using in_d by auto
    with dep assms(1) have "has_key d dep"
      by (auto simp: deps_closed_iff)
    then show "has_key (AList.update ttl (T\<lparr>completed := c\<rparr>) d) dep" by (rule keys)
  qed
qed

text \<open>Appending a task whose dependencies are keys of the store keeps it too.\<close>

lemma deps_closed_append:
  assumes "deps_closed d" and "\<forall>dep \<in> set (dependencies t). has_key d dep"
  shows "deps_closed (d @ [(k, t)])"
  using assms by (auto simp: deps_closed_iff has_key_iff)

lemma deps_closed_add_task:
  assumes "deps_closed (tasks m)"
  shows "deps_closed (tasks (snd (add_task task m)))"
  using add_task_tasks_cases [of task m] assms by (auto simp: deps_closed_append)

lemma deps_closed_complete_task:
  assumes "deps_closed (tasks m)"
  shows "deps_closed (tasks (snd (complete_task now ttl m)))"
proof (cases "map_of (tasks m) ttl")
  case None
  with assms show ?thesis by (simp add: complete_task_absent)
next
  case (Some T)
  have "deps_closed (AList.update ttl (T\<lparr>completed := True\<rparr>) (tasks m))"
    using assms Some by (rule deps_closed_mark)
  with complete_task_tasks_cases [OF Some, of now] show ?thesis
    by (auto simp: deps_closed_append)
qed

lemma deps_closed_step: "deps_closed (tasks m) \<Longrightarrow> deps_closed (tasks (step oper m))"
  by (cases oper) (simp_all add: deps_closed_add_task deps_closed_complete_task)

lemma deps_closed_run: "deps_closed (tasks m) \<Longrightarrow> deps_closed (tasks (run opers m))"
  by (induction opers arbitrary: m) (simp_all add: deps_closed_step)

lemma deps_closed_pending:
  assumes "deps_closed (tasks m)"
  shows "\<exists>r. get_pending_dependencies ttl m = Inr r"
proof (cases "map_of (tasks m) ttl")
  case None
  then show ?thesis by (simp add: get_pending_dependencies_def)
next
  case (Some T)
  then have "(ttl, T) \<in> set (tasks m)" by (rule map_of_SomeD)
  with assms have "\<forall>dep \<in> set (dependencies T). has_key (tasks m) dep"
    by (auto simp: deps_closed_iff)
  with Some show ?thesis
    by (simp add: get_pending_dependencies_def pending_of_present)
qed

text \<open>
  C8. The store invariant: every dependency of every stored task is a key of the store.
  The empty store has it. From a store that has it, \<open>add_task\<close> and
  \<open>complete_task\<close> (whatever they answer, its recurrence and its exception included)
  lead to a store that has it, and so does every sequence of store operations; and in
  every store such a sequence reaches, \<open>get_pending_dependencies\<close> of any title
  returns a list: its lookup of a dependency never raises KeyError.
\<close>

theorem deps_closed_invariant:
  "deps_closed (tasks empty_manager)
   \<and> (deps_closed (tasks m) \<longrightarrow>
        deps_closed (tasks (snd (add_task task m)))
        \<and> deps_closed (tasks (snd (complete_task now ttl m)))
        \<and> deps_closed (tasks (run opers m))
        \<and> (\<exists>r. get_pending_dependencies ttl' (run opers m) = Inr r))"
proof (intro conjI impI)
  show "deps_closed (tasks empty_manager)"
    by (simp add: deps_closed_def empty_manager_def)
next
  assume inv: "deps_closed (tasks m)"
  then show "deps_closed (tasks (snd (add_task task m)))" by (rule deps_closed_add_task)
  from inv show "deps_closed (tasks (snd (complete_task now ttl m)))"
    by (rule deps_closed_complete_task)
  from inv show run: "deps_closed (tasks (run opers m))" by (rule deps_closed_run)
  from run show "\<exists>r. get_pending_dependencies ttl' (run opers m) = Inr r"
    by (rule deps_closed_pending)
qed

theorem deps_closed_invariant_witness:
  "deps_closed (tasks (snd (add_task task_B manager_A)))
   \<and> deps_closed (tasks (snd (complete_task 1000 ''A'' manager_A)))
   \<and> deps_closed (tasks (run [Add task_B, Complete 1000 ''A'', PendingDependencies ''B''] manager_A))
   \<and> (\<exists>r. get_pending_dependencies ''B''
             (run [Add task_B, Complete 1000 ''A'', PendingDependencies ''B''] manager_A) = Inr r)"
proof -
  have "deps_closed (tasks manager_A)"
    by (simp add: manager_A_eq deps_closed_def task_A_def)
  with deps_closed_invariant
    [of manager_A task_B 1000 "''A''" "[Add task_B, Complete 1000 ''A'', PendingDependencies ''B'']" "''B''"]
  show ?thesis by simp
qed

text \<open>
  \<open>completed\<close> of a stored task. One operation leaves the task under a key as it is,
  except \<open>complete_task\<close> of that key on a task that is not completed, which sets
  the flag and nothing else.
\<close>

lemma step_lookup:
  assumes "map_of (tasks m) k = Some t"
  shows "map_of (tasks (step oper m)) k = Some t
         \<or> (\<not> completed t \<and> (\<exists>now. oper = Complete now k)
            \<and> map_of (tasks (step oper m)) k = Some (t\<lparr>completed := True\<rparr>))"
proof (cases oper)
  case (Add task)
  have "has_key (tasks m) k" using assms by (simp add: has_key_def)
  with Add assms show ?thesis by (simp add: add_task_lookup)
next
  case (Complete now ttl)
  show ?thesis
  proof (cases "ttl = k")
    case True
    have marked: "map_of (tasks (step oper m)) k = Some (t\<lparr>completed := True\<rparr>)"
      using complete_task_lookup_self [OF assms, of now] Complete True by simp
    show ?thesis
    proof (cases "completed t")
      case True
      then have "t\<lparr>completed := True\<rparr> = t" by simp
      with marked show ?thesis by simp
    next
      case False
      with marked Complete \<open>ttl = k\<close> show ?thesis by simp
    qed
  next
    case False
    with complete_task_lookup_other [OF assms, of ttl now] Complete show ?thesis by simp
  qed
next
  case (PendingDependencies ttl)
  with assms show ?thesis by simp
qed

lemma run_lookup:
  assumes "map_of (tasks m) k = Some t"
  shows "map_of (tasks (run opers m)) k = Some t
         \<or> (\<not> completed t \<and> map_of (tasks (run opers m)) k = Some (t\<lparr>completed := True\<rparr>))"
  using assms
proof (induction opers arbitrary: m t)
  case Nil
  then show ?case by simp
next
  case (Cons oper opers)
  from step_lookup [OF Cons.prems, of oper]
  consider "map_of (tasks (step oper m)) k = Some t"
    | "\<not> completed t" "map_of (tasks (step oper m)) k = Some (t\<lparr>completed := True\<rparr>)"
    by blast
  then show ?case
  proof cases
    case 1
    from Cons.IH [OF 1] show ?thesis by simp
  next
    case 2
    from Cons.IH [OF 2(2)] 2(1) show ?thesis by simp
  qed
qed

text \<open>
  C9. For a task t stored under a key k: one store operation leaves it as it is,
  unless the operation is \<open>complete_task\<close> of k and t is not completed, and then only
  \<open>completed\<close> changes, from False to True (\<open>add_task\<close> never replaces the task
  of a key that is in the store). After any sequence of operations the key holds t, or
  t with the flag set where it was not; a completed task stays as it is, so its flag
  never goes back to False.
\<close>

theorem completed_only_rises:
  assumes "map_of (tasks m) k = Some t"
  shows "(map_of (tasks (step oper m)) k = Some t
          \<or> (\<not> completed t \<and> (\<exists>now. oper = Complete now k)
             \<and> map_of (tasks (step oper m)) k = Some (t\<lparr>completed := True\<rparr>)))
       \<and> map_of (tasks (snd (add_task task m))) k = Some t
       \<and> (map_of (tasks (run opers m)) k = Some t
          \<or> (\<not> completed t \<and> map_of (tasks (run opers m)) k = Some (t\<lparr>completed := True\<rparr>)))
       \<and> (completed t \<longrightarrow> map_of (tasks (run opers m)) k = Some t)"
proof -
  have "has_key (tasks m) k" using assms by (simp add: has_key_def)
  then have "map_of (tasks (snd (add_task task m))) k = Some t"
    using assms by (simp add: add_task_lookup)
  with step_lookup [OF assms, of oper] run_lookup [OF assms, of opers] show ?thesis by blast
qed

theorem completed_only_rises_witness:
  "map_of (tasks (step (Complete 1000 ''A'') manager_AB)) ''A'' = Some (task_A\<lparr>completed := True\<rparr>)
   \<and> map_of (tasks (snd (add_task task_A manager_AB))) ''A'' = Some task_A
   \<and> map_of (tasks (run [Complete 1000 ''A'', Add task_A, Complete 2000 ''B'', Complete 3000 ''A'']
        manager_AB)) ''A'' = Some (task_A\<lparr>completed := True\<rparr>)
   \<and> map_of (tasks (run [Add task_A, Complete 2000 ''B'', Complete 3000 ''A'']
        (step (Complete 1000 ''A'') manager_AB))) ''A'' = Some (task_A\<lparr>completed := True\<rparr>)"
proof -
  have a: "map_of (tasks manager_AB) ''A'' = Some task_A"
    by (simp add: manager_AB_eq)
  have s: "map_of (tasks (step (Complete 1000 ''A'') manager_AB)) ''A'' = Some (task_A\<lparr>completed := True\<rparr>)"
    using complete_task_lookup_self [OF a, of 1000] by simp
  have 1: "map_of (tasks (snd (add_task task_A manager_AB))) ''A'' = Some task_A"
    using completed_only_rises [OF a, of "Add task_A" task_A "[]"] by simp
  have 2: "map_of (tasks (run [Add task_A, Complete 2000 ''B'', Complete 3000 ''A'']
        (step (Complete 1000 ''A'') manager_AB))) ''A'' = Some (task_A\<lparr>completed := True\<rparr>)"
    using completed_only_rises [OF s, of "Add task_A" task_A
        "[Add task_A, Complete 2000 ''B'', Complete 3000 ''A'']"]
    by simp
  from s 1 2 show ?thesis by simp
qed


end
